theory Spec2Isabelle
  imports Main "HOL-Library.Word"
begin

unbundle bit_operations_syntax

section \<open>Data model of dx7dump\<close>

text \<open>
  The program reads a whole file into the global array
  \<^verbatim>\<open>unsigned char buffer[sysexSize]\<close> and then looks at it through a pointer of
  type \<^verbatim>\<open>DX7Sysex *\<close> (bank) or \<^verbatim>\<open>DX7SingleSysex *\<close> (single voice). The model keeps
  the buffer as the list of its bytes and reads every struct field at the offset the
  struct declaration gives it; an \<^verbatim>\<open>unsigned char\<close> is an \<open>8 word\<close>.

  The functions are those of version 1.03a of \<^verbatim>\<open>dx7dump.cpp\<close> (the first revision in
  \<^verbatim>\<open>src/unnamed/part_000\<close>). \<^verbatim>\<open>Checksum\<close>, \<^verbatim>\<open>FixFile\<close>, the tests of \<^verbatim>\<open>Verify\<close> and
  the loops of \<^verbatim>\<open>FindDupes\<close> read the same in version 1.01 (\<^verbatim>\<open>src/dx7dump.cpp\<close>), which
  prints each message where 1.03a stores it in \<^verbatim>\<open>msgBuffer\<close>.
\<close>

type_synonym byte = "8 word"

definition sysexSize :: nat where
  "sysexSize = 4104"

definition rawDataSize :: nat where
  "rawDataSize = 4096"

definition singleSysexSize :: nat where
  "singleSysexSize = 163"


text \<open>
  \<^verbatim>\<open>struct OperatorPacked\<close> has 11 plain bytes, three bytes of bit-fields, one plain
  byte, one byte of bit-fields and one plain byte; \<^verbatim>\<open>struct VoicePacked\<close> has six
  operators, 8 plain bytes, two bytes of bit-fields, 4 plain bytes, one byte of
  bit-fields, the transpose byte and the 10 bytes of the name.
  \<^verbatim>\<open>struct OperatorUnpacked\<close> has 21 plain bytes and \<^verbatim>\<open>struct VoiceUnpacked\<close> six
  operators, 19 plain bytes and the name.
\<close>

definition sizeof_OperatorPacked :: nat where
  "sizeof_OperatorPacked = 11 + 3 + 1 + 1 + 1"

definition sizeof_VoicePacked :: nat where
  "sizeof_VoicePacked = 6 * sizeof_OperatorPacked + 8 + 2 + 4 + 1 + 1 + 10"

definition sizeof_OperatorUnpacked :: nat where
  "sizeof_OperatorUnpacked = 21"

definition sizeof_VoiceUnpacked :: nat where
  "sizeof_VoiceUnpacked = 6 * sizeof_OperatorUnpacked + 19 + 10"

subsection \<open>Fields of \<^verbatim>\<open>struct DX7Sysex\<close>\<close>

definition sysexBeginF0 :: "byte list \<Rightarrow> byte" where
  "sysexBeginF0 sysex = sysex ! 0"

definition yamaha43 :: "byte list \<Rightarrow> byte" where
  "yamaha43 sysex = sysex ! 1"

definition subStatusAndChannel :: "byte list \<Rightarrow> byte" where
  "subStatusAndChannel sysex = sysex ! 2"

definition format9 :: "byte list \<Rightarrow> byte" where
  "format9 sysex = sysex ! 3"

definition sizeMSB :: "byte list \<Rightarrow> byte" where
  "sizeMSB sysex = sysex ! 4"

definition sizeLSB :: "byte list \<Rightarrow> byte" where
  "sizeLSB sysex = sysex ! 5"

definition offset_voices :: nat where
  "offset_voices = 6"

definition offset_checksum :: nat where
  "offset_checksum = offset_voices + 32 * sizeof_VoicePacked"

definition offset_sysexEndF7 :: nat where
  "offset_sysexEndF7 = offset_checksum + 1"

definition checksum :: "byte list \<Rightarrow> byte" where
  "checksum sysex = sysex ! offset_checksum"

definition sysexEndF7 :: "byte list \<Rightarrow> byte" where
  "sysexEndF7 sysex = sysex ! offset_sysexEndF7"

text \<open>The 4096 bytes of \<^verbatim>\<open>voices[32]\<close>, and the 128 bytes of \<^verbatim>\<open>voices[i]\<close>.\<close>

definition voices :: "byte list \<Rightarrow> byte list" where
  "voices sysex = take (32 * sizeof_VoicePacked) (drop offset_voices sysex)"

definition voice :: "byte list \<Rightarrow> nat \<Rightarrow> byte list" where
  "voice sysex i = take sizeof_VoicePacked (drop (offset_voices + i * sizeof_VoicePacked) sysex)"

section \<open>Checksum\<close>

text \<open>
  \<^verbatim>\<open>p = (unsigned char *)sysex->voices; sum = 0;\<close>
  \<^verbatim>\<open>for (i = 0; i < rawDataSize; ++i) sum += (p[i] & 0x7F);\<close>
  \<^verbatim>\<open>sum = (~sum) + 1;  sum &= 0x7F;  return sum;\<close>
  The variable \<^verbatim>\<open>sum\<close> (here \<open>acc\<close>) is an \<^verbatim>\<open>unsigned char\<close>: each assignment
  truncates the promoted \<^verbatim>\<open>int\<close> value to 8 bits, which is the arithmetic of \<open>8 word\<close>.
\<close>

definition checksum_loop :: "(nat \<Rightarrow> byte) \<Rightarrow> nat \<Rightarrow> byte" where
  "checksum_loop p n = fold (\<lambda>i acc. acc + (p i AND 0x7F)) [0..<n] 0"

definition checksum_finish :: "byte \<Rightarrow> byte" where
  "checksum_finish acc = (NOT acc + 1) AND 0x7F"

definition Checksum :: "byte list \<Rightarrow> byte" where
  "Checksum sysex =
     checksum_finish (checksum_loop (\<lambda>i. sysex ! (offset_voices + i)) rawDataSize)"

text \<open>
  The spec's \<open>sum_7bit\<close>: the sum, as a number, of the bytes each masked to its low
  7 bits.
\<close>

definition sum_7bit :: "byte list \<Rightarrow> nat" where
  "sum_7bit bs = sum_list (map (\<lambda>b. unat (b AND 0x7F)) bs)"

section \<open>Global state, options and the outside world\<close>

text \<open>
  \<^verbatim>\<open>msgBuffer\<close> holds the text of the last \<^verbatim>\<open>sprintf\<close> of \<^verbatim>\<open>Verify\<close>. The model keeps
  which message it is, with the values the format string prints; \<open>NoMessage\<close> is the
  empty string the buffer starts with (\<^verbatim>\<open>msgBuffer[0] == 0\<close>), every other message is
  a non-empty text.
\<close>

datatype message =
    NoMessage
  | NoSysexStart
  | NoYamahaID
  | NoSubstatus0 byte
  | NoFormat9
  | ByteCountNot4096 byte byte
  | NoSysexEnd
  | ChecksumFailed byte

text \<open>The global variables that \<^verbatim>\<open>processFile\<close> and the functions it calls write.\<close>

record globals =
  fsize :: int
  buffer :: "byte list"
  msgBuffer :: message
  softError :: bool
  sysexFile :: bool
  fixNeeded :: bool
  singleVoiceFile :: bool

text \<open>
  The initial values of the globals: static storage is zero-initialised, so the buffer
  starts as 4104 zero bytes; \<^verbatim>\<open>sysexFile = true\<close>, the other flags \<^verbatim>\<open>false\<close>.
\<close>

definition initial_globals :: globals where
  "initial_globals =
     \<lparr> fsize = 0, buffer = replicate sysexSize 0, msgBuffer = NoMessage,
       softError = False, sysexFile = True, fixNeeded = False,
       singleVoiceFile = False \<rparr>"

text \<open>The command-line switches that the modelled functions read.\<close>

record options =
  errorsOnly :: bool
  fixFiles :: bool
  askToFix :: bool
  noBackup :: bool
  findDupes :: bool

text \<open>
  What the operating system and the user answer: the content of the file (\<open>None\<close> when
  \<^verbatim>\<open>fopen(filename, "r")\<close> fails), how many bytes \<^verbatim>\<open>fread\<close> delivers at most, the
  character \<^verbatim>\<open>choice[0]\<close> after \<^verbatim>\<open>fgets\<close>, the value of \<^verbatim>\<open>rename\<close>, whether
  \<^verbatim>\<open>fopen(filename, "wb")\<close> succeeds, and the value of \<^verbatim>\<open>fwrite\<close>.
\<close>

record environment =
  file_content :: "byte list option"
  fread_limit :: nat
  choice0 :: char
  rename_result :: int
  fopen_wb_ok :: bool
  fwrite_result :: nat

text \<open>Every line the program prints, by the statement that prints it.\<close>

datatype printed =
    CantOpenFile
  | Filename string
  | FileReadError
  | FileTooSmall int
  | FileTooBig int
  | HeaderlessWarning int
  | SingleVoiceDump "byte list"
  | Message message
  | EmptyLine
  | FixPrompt
  | RenameFailed
  | CantOpenForWriting string
  | WriteError string
  | ChecksumFailedSingle byte
  | FoundDuplicate int int

text \<open>
  The trace of a run: what is printed, the calls that change the file system
  (\<^verbatim>\<open>rename\<close>, \<^verbatim>\<open>fopen(.., "wb")\<close>, \<^verbatim>\<open>fwrite\<close> with the bytes handed to it), and the
  calls of \<^verbatim>\<open>Verify\<close>, \<^verbatim>\<open>VerifySingle\<close> and \<^verbatim>\<open>Format\<close> (with the buffer it is given;
  \<^verbatim>\<open>Format\<close> only reads and prints).
\<close>

datatype event =
    Print printed
  | Rename string string
  | FopenWb string
  | Fwrite "byte list"
  | CallVerify
  | CallVerifySingle
  | CallFormat "byte list"

section \<open>Verify\<close>

text \<open>
  The sub-status test is written \<^verbatim>\<open>sysex->subStatusAndChannel & 0xF0 != 0\<close>. In C and
  C++ \<^verbatim>\<open>!=\<close> binds tighter than \<^verbatim>\<open>&\<close>, so the condition is
  \<^verbatim>\<open>subStatusAndChannel & (0xF0 != 0)\<close>: the comparison yields 1 and the byte, promoted
  to \<^verbatim>\<open>int\<close>, is masked with 1. The \<^verbatim>\<open>if\<close> takes the branch when the result is not 0.
\<close>

definition substatus_condition :: "byte \<Rightarrow> bool" where
  "substatus_condition b = ((uint b AND (if (0xF0 :: int) \<noteq> 0 then 1 else 0)) \<noteq> 0)"

text \<open>
  \<^verbatim>\<open>Verify\<close> reads the bank through the pointer (the global buffer), writes
  \<^verbatim>\<open>msgBuffer\<close> and \<^verbatim>\<open>fixNeeded\<close>, and returns 1 at the first fatal deviation, else 0.
\<close>

definition Verify :: "globals \<Rightarrow> int \<times> globals" where
  "Verify g =
    (let sysex = buffer g in
     if sysexBeginF0 sysex \<noteq> 0xF0 then (1, g\<lparr>msgBuffer := NoSysexStart\<rparr>)
     else if yamaha43 sysex \<noteq> 0x43 then (1, g\<lparr>msgBuffer := NoYamahaID\<rparr>)
     else
       let g1 = (if substatus_condition (subStatusAndChannel sysex)
                 then g\<lparr>msgBuffer :=
                          NoSubstatus0 (drop_bit 4 (subStatusAndChannel sysex AND 0xF0)),
                        fixNeeded := True\<rparr>
                 else g);
           g2 = (if format9 sysex \<noteq> 0x09
                 then g1\<lparr>msgBuffer := NoFormat9, fixNeeded := True\<rparr>
                 else g1);
           g3 = (if sizeMSB sysex \<noteq> 0x20 \<or> sizeLSB sysex \<noteq> 0
                 then g2\<lparr>msgBuffer := ByteCountNot4096 (sizeMSB sysex) (sizeLSB sysex),
                         fixNeeded := True\<rparr>
                 else g2)
       in if sysexEndF7 sysex \<noteq> 0xF7 then (1, g3\<lparr>msgBuffer := NoSysexEnd\<rparr>)
          else
            let acc = Checksum sysex;
                g4 = (if acc \<noteq> checksum sysex
                      then g3\<lparr>msgBuffer := ChecksumFailed acc, fixNeeded := True\<rparr>
                      else g3)
            in (0, g4))"

section \<open>FixFile\<close>

text \<open>
  The eight assignments of \<^verbatim>\<open>FixFile\<close>, in the source's order; the checksum is
  computed from the buffer as it is after the six header assignments.
\<close>

definition FixFile_fields :: "byte list \<Rightarrow> byte list" where
  "FixFile_fields sysex =
    (let s1 = sysex[0 := 0xF0];
         s2 = s1[1 := 0x43];
         s3 = s2[2 := 0];
         s4 = s3[3 := 0x09];
         s5 = s4[4 := 0x20];
         s6 = s5[5 := 0];
         s7 = s6[offset_checksum := Checksum s6]
     in s7[offset_sysexEndF7 := 0xF7])"

text \<open>
  \<^verbatim>\<open>FixFile\<close> returns its value, the buffer it leaves and the trace. The backup file is
  \<^verbatim>\<open>filename + ".ORIG"\<close>; \<^verbatim>\<open>rename\<close> fails when it does not return 0, \<^verbatim>\<open>fwrite\<close>
  when it does not return 1.
\<close>

definition FixFile :: "options \<Rightarrow> environment \<Rightarrow> byte list \<Rightarrow> string
    \<Rightarrow> int \<times> byte list \<times> event list" where
  "FixFile opts env sysex0 filename =
    (let sysex = FixFile_fields sysex0;
         backup = (if \<not> noBackup opts then [Rename filename (filename @ ''.ORIG'')] else [])
     in if \<not> noBackup opts \<and> rename_result env \<noteq> 0
        then (1, sysex, backup @ [Print RenameFailed])
        else if \<not> fopen_wb_ok env
        then (1, sysex, backup @ [FopenWb filename, Print (CantOpenForWriting filename)])
        else if fwrite_result env \<noteq> 1
        then (1, sysex, backup @ [FopenWb filename, Fwrite (take sysexSize sysex),
                                  Print (WriteError filename)])
        else (0, sysex, backup @ [FopenWb filename, Fwrite (take sysexSize sysex)]))"

section \<open>Single-voice dumps\<close>

text \<open>
  \<^verbatim>\<open>struct DX7SingleSysex\<close> has the same six header bytes as \<^verbatim>\<open>struct DX7Sysex\<close>
  (the fourth is called \<^verbatim>\<open>format0\<close>), then one \<^verbatim>\<open>VoiceUnpacked\<close>, the checksum and
  the end marker.
\<close>

definition format0 :: "byte list \<Rightarrow> byte" where
  "format0 sysex = sysex ! 3"

definition offset_voice :: nat where
  "offset_voice = 6"

definition offset_checksum_single :: nat where
  "offset_checksum_single = offset_voice + sizeof_VoiceUnpacked"

definition checksum_single :: "byte list \<Rightarrow> byte" where
  "checksum_single sysex = sysex ! offset_checksum_single"

definition sysexEndF7_single :: "byte list \<Rightarrow> byte" where
  "sysexEndF7_single sysex = sysex ! (offset_checksum_single + 1)"

text \<open>
  \<^verbatim>\<open>ChecksumSingle(voice, blocksize)\<close>: the loop of \<^verbatim>\<open>Checksum\<close> over \<^verbatim>\<open>blocksize\<close>
  bytes from the pointer \<^verbatim>\<open>voice\<close>, given here as the function that reads \<^verbatim>\<open>p[i]\<close>.
\<close>

definition ChecksumSingle :: "(nat \<Rightarrow> byte) \<Rightarrow> nat \<Rightarrow> byte" where
  "ChecksumSingle p blocksize = checksum_finish (checksum_loop p blocksize)"

text \<open>
  \<^verbatim>\<open>VerifySingle\<close> returns its value, the final value of its local variable
  \<^verbatim>\<open>error\<close>, and what it prints. The sub-status test is written as in \<^verbatim>\<open>Verify\<close>.
  When the seven tests leave \<^verbatim>\<open>error\<close> at 0 the checksum is compared, a mismatch
  adds 2 and prints, and the function returns 0 (\<^verbatim>\<open>// basic check passed\<close>); otherwise
  it returns 1.
\<close>

definition VerifySingle :: "byte list \<Rightarrow> int \<times> nat \<times> event list" where
  "VerifySingle sysex =
    (let e0 = (0 :: nat);
         e1 = (if sysexBeginF0 sysex \<noteq> 0xF0 then e0 + 128 else e0);
         e2 = (if yamaha43 sysex \<noteq> 0x43 then e1 + 64 else e1);
         e3 = (if substatus_condition (subStatusAndChannel sysex) then e2 + 32 else e2);
         e4 = (if format0 sysex \<noteq> 0x00 then e3 + 16 else e3);
         e5 = (if sizeMSB sysex \<noteq> 0x01 then e4 + 8 else e4);
         e6 = (if sizeLSB sysex \<noteq> 0x1B then e5 + 4 else e5);
         e7 = (if sysexEndF7_single sysex \<noteq> 0xF7 then e6 + 1 else e6)
     in if e7 = 0 then
          (let acc = ChecksumSingle (\<lambda>i. sysex ! (offset_voice + i)) sizeof_VoiceUnpacked
           in if acc \<noteq> checksum_single sysex
              then (0, e7 + 2, [Print (ChecksumFailedSingle acc)])
              else (0, e7, []))
        else (1, e7, []))"

section \<open>FindDupes\<close>

text \<open>
  \<^verbatim>\<open>memcmp(p, q, n)\<close> on the bytes the two pointers lead to: 0 when the first \<open>n\<close>
  bytes agree, else the sign of the first difference.
\<close>

fun memcmp_bytes :: "byte list \<Rightarrow> byte list \<Rightarrow> int" where
  "memcmp_bytes (a # as) (b # bs) =
     (if a = b then memcmp_bytes as bs else if a < b then - 1 else 1)"
| "memcmp_bytes _ _ = 0"

definition memcmp :: "byte list \<Rightarrow> byte list \<Rightarrow> nat \<Rightarrow> int" where
  "memcmp p q n = memcmp_bytes (take n p) (take n q)"

text \<open>The pointer \<^verbatim>\<open>&(sysex->voices[i])\<close>: the buffer from that voice on.\<close>

definition voices_ptr :: "byte list \<Rightarrow> nat \<Rightarrow> byte list" where
  "voices_ptr sysex i = drop (offset_voices + i * sizeof_VoicePacked) sysex"

text \<open>
  The loop indices \<open>(i, j)\<close> at which \<^verbatim>\<open>FindDupes\<close> prints, in the order of the two
  nested loops \<^verbatim>\<open>for (i = 0; i < 31; ++i) for (j = i + 1; j < 32; ++j)\<close>.
\<close>

definition FindDupes_pairs :: "byte list \<Rightarrow> (nat \<times> nat) list" where
  "FindDupes_pairs sysex =
     concat (map (\<lambda>i.
       concat (map (\<lambda>j.
         if memcmp (voices_ptr sysex i) (voices_ptr sysex j) (sizeof_VoicePacked - 10) = 0
         then [(i, j)] else [])
       [i + 1..<32]))
     [0..<31])"

text \<open>
  What \<^verbatim>\<open>FindDupes\<close> prints: a line with \<^verbatim>\<open>i+1\<close> and \<^verbatim>\<open>j+1\<close> for each such pair, and
  an empty line at the end when \<^verbatim>\<open>dupeFound\<close> was set.
\<close>

definition FindDupes :: "byte list \<Rightarrow> event list" where
  "FindDupes sysex =
    (let found = FindDupes_pairs sysex
     in map (\<lambda>(i, j). Print (FoundDuplicate (int i + 1) (int j + 1))) found
        @ (if found \<noteq> [] then [Print EmptyLine] else []))"

section \<open>processFile\<close>

text \<open>
  \<^verbatim>\<open>fread(buffer + off, n, 1, file)\<close> right after \<^verbatim>\<open>rewind\<close>: the bytes delivered are
  stored from \<open>off\<close> on, and the call returns 1 when all \<open>n\<close> bytes came.
\<close>

definition fread_bytes :: "environment \<Rightarrow> byte list \<Rightarrow> nat \<Rightarrow> byte list" where
  "fread_bytes env content n = take (min n (fread_limit env)) content"

definition store :: "byte list \<Rightarrow> nat \<Rightarrow> byte list \<Rightarrow> byte list" where
  "store buf off bytes = take off buf @ bytes @ drop (off + length bytes) buf"

text \<open>
  The first half of \<^verbatim>\<open>processFile\<close>: open the file, take its size, and read it
  according to the size. The result is \<open>Some rc\<close> where the source returns \<open>rc\<close>, and
  \<open>None\<close> where it goes on. \<^verbatim>\<open>fsize\<close> is an \<^verbatim>\<open>int\<close>; files are taken to be shorter
  than \<open>2^31\<close> bytes.
\<close>

definition processFile_read :: "environment \<Rightarrow> string \<Rightarrow> globals
    \<Rightarrow> int option \<times> globals \<times> event list" where
  "processFile_read env filename g0 =
    (case file_content env of
       None \<Rightarrow> (Some 1, g0, [Print CantOpenFile])
     | Some content \<Rightarrow>
        (let g = g0\<lparr>fsize := int (length content)\<rparr> in
         if fsize g = int sysexSize then
           (let bytes = fread_bytes env content sysexSize;
                g' = g\<lparr>buffer := store (buffer g) 0 bytes\<rparr>
            in if length bytes \<noteq> sysexSize
               then (Some 1, g', [Print (Filename filename), Print FileReadError])
               else (None, g', []))
         else if fsize g = int rawDataSize then
           (let bytes = fread_bytes env content rawDataSize;
                g' = g\<lparr>buffer := store (buffer g) 6 bytes\<rparr>
            in if length bytes \<noteq> rawDataSize
               then (Some 1, g', [Print (Filename filename), Print FileReadError,
                                  Print (FileTooSmall (fsize g))])
               else (None, g'\<lparr>softError := True, sysexFile := False, fixNeeded := True\<rparr>,
                     [Print (Filename filename), Print (HeaderlessWarning (fsize g))]))
         else if fsize g = int singleSysexSize then
           (let bytes = fread_bytes env content singleSysexSize;
                g' = g\<lparr>buffer := store (buffer g) 0 bytes\<rparr>
            in if length bytes \<noteq> singleSysexSize
               then (Some 1, g', [Print (Filename filename), Print FileReadError])
               else (None, g'\<lparr>singleVoiceFile := True\<rparr>, []))
         else if fsize g > int sysexSize then
           (Some 1, g, [Print (Filename filename), Print (FileTooBig (fsize g))])
         else
           (Some 1, g, [Print (Filename filename), Print (FileTooSmall (fsize g))])))"

text \<open>
  The second half, for a bank: \<^verbatim>\<open>Verify\<close> (only when \<^verbatim>\<open>sysexFile\<close> is set: \<^verbatim>\<open>&&\<close>
  does not evaluate its right side otherwise), the message, \<^verbatim>\<open>Format\<close>, the repair
  and \<^verbatim>\<open>FindDupes\<close>. The voice name of a single-voice dump is at the end of its
  \<^verbatim>\<open>VoiceUnpacked\<close>.
\<close>

definition processFile_bank :: "options \<Rightarrow> environment \<Rightarrow> string \<Rightarrow> globals
    \<Rightarrow> int \<times> globals \<times> event list" where
  "processFile_bank opts env filename g0 =
    (let (rc, g1, t1) = (if sysexFile g0 then (let (r, g') = Verify g0 in (r, g', [CallVerify]))
                         else (0, g0, []))
     in if rc \<noteq> 0
        then (1, g1, t1 @ [Print (Filename filename), Print (Message (msgBuffer g1))])
        else
         (let (g2, t2) = (if msgBuffer g1 \<noteq> NoMessage
                          then (g1\<lparr>softError := True\<rparr>,
                                t1 @ [Print (Filename filename), Print (Message (msgBuffer g1))])
                          else (g1, t1));
              t3 = (if \<not> errorsOnly opts then t2 @ [CallFormat (buffer g2)]
                    else if softError g2 then t2 @ [Print EmptyLine] else t2)
          in if fixFiles opts \<and> fixNeeded g2 \<and> askToFix opts
                \<and> (choice0 env = CHR ''N'' \<or> choice0 env = CHR ''n'')
             then (0, g2, t3 @ [Print FixPrompt])
             else
              (let (g4, t4) =
                    (if fixFiles opts \<and> fixNeeded g2
                     then (let (r, b, t) = FixFile opts env (buffer g2) filename
                           in (g2\<lparr>buffer := b\<rparr>,
                               t3 @ (if askToFix opts then [Print FixPrompt] else []) @ t))
                     else (g2, t3));
                   t5 = (if findDupes opts then t4 @ FindDupes (buffer g4) else t4)
               in (0, g4, t5))))"

definition processFile_single :: "string \<Rightarrow> globals \<Rightarrow> int \<times> globals \<times> event list" where
  "processFile_single filename g =
    (let (rc, err, t) = VerifySingle (buffer g)
     in if rc = 0
        then (1, g, [Print (Filename filename), CallVerifySingle] @ t
                    @ [Print (SingleVoiceDump
                         (take 10 (drop (offset_checksum_single - 10) (buffer g))))])
        else (1, g, [Print (Filename filename), CallVerifySingle] @ t
                    @ [Print (FileTooSmall (fsize g))]))"

definition processFile :: "options \<Rightarrow> environment \<Rightarrow> string \<Rightarrow> globals
    \<Rightarrow> int \<times> globals \<times> event list" where
  "processFile opts env filename g0 =
    (case processFile_read env filename g0 of
       (Some rc, g, t) \<Rightarrow> (rc, g, t)
     | (None, g, t) \<Rightarrow>
        (let (rc, g', t') = (if singleVoiceFile g then processFile_single filename g
                             else processFile_bank opts env filename g)
         in (rc, g', t @ t')))"

section \<open>Example buffers\<close>

text \<open>
  A bank buffer with the given six header bytes, 4096 zero bytes of voice data, and
  the given checksum and end-marker bytes; a single-voice buffer built the same way;
  the options and environment of a plain run that reads a whole file.
\<close>

definition test_bank :: "byte list \<Rightarrow> byte \<Rightarrow> byte \<Rightarrow> byte list" where
  "test_bank header cs end_marker = header @ replicate rawDataSize 0 @ [cs, end_marker]"


definition test_options :: options where
  "test_options =
     \<lparr> errorsOnly = False, fixFiles = True, askToFix = False, noBackup = False,
       findDupes = False \<rparr>"

definition test_environment :: "byte list \<Rightarrow> environment" where
  "test_environment content =
     \<lparr> file_content = Some content, fread_limit = sysexSize, choice0 = CHR ''y'',
       rename_result = 0, fopen_wb_ok = True, fwrite_result = 1 \<rparr>"

text \<open>
  A bank whose first two voices differ only in the ten name bytes, whose third voice
  differs from them in its first byte (\<^verbatim>\<open>EG_R1\<close> of the first operator stored), and
  whose other voices are all zero.
\<close>

definition test_dupes_bank :: "byte list" where
  "test_dupes_bank =
     [0xF0, 0x43, 0, 0x09, 0x20, 0]
     @ (replicate 118 0 @ replicate 10 0x41)
     @ (replicate 118 0 @ replicate 10 0x42)
     @ (1 # replicate 127 0)
     @ replicate (29 * 128) 0
     @ [0, 0xF7]"

text \<open>The order of the nested loops on pairs: by \<open>i\<close>, then by \<open>j\<close>.\<close>

definition pair_before :: "nat \<times> nat \<Rightarrow> nat \<times> nat \<Rightarrow> bool" where
  "pair_before p q \<longleftrightarrow> fst p < fst q \<or> (fst p = fst q \<and> snd p < snd q)"

section \<open>Properties of the checksum\<close>

lemma sizeof_VoicePacked_128: "sizeof_VoicePacked = 128"
  by (simp add: sizeof_VoicePacked_def sizeof_OperatorPacked_def)


lemma offset_checksum_4102: "offset_checksum = 4102"
  by (simp add: offset_checksum_def offset_voices_def sizeof_VoicePacked_128)

lemma offset_sysexEndF7_4103: "offset_sysexEndF7 = 4103"
  by (simp add: offset_sysexEndF7_def offset_checksum_4102)

lemma fold_add_masked:
  "fold (\<lambda>i acc. acc + (p i AND 0x7F)) is (acc :: byte)
     = acc + of_nat (sum_list (map (\<lambda>i. unat (p i AND 0x7F)) is))"
  by (induction "is" arbitrary: acc) (simp_all add: add.assoc)

lemma checksum_loop_sum_7bit:
  "checksum_loop p n = of_nat (sum_7bit (map p [0..<n]))"
  by (simp add: checksum_loop_def fold_add_masked sum_7bit_def comp_def)

lemma map_nth_offset:
  "off + n \<le> length xs \<Longrightarrow> map (\<lambda>i. xs ! (off + i)) [0..<n] = take n (drop off xs)"
  by (rule nth_equalityI) simp_all

lemma checksum_loop_cong:
  assumes "\<And>i. i < n \<Longrightarrow> p i = q i"
  shows "checksum_loop p n = checksum_loop q n"
proof -
  have "map p [0..<n] = map q [0..<n]" using assms by simp
  then show ?thesis by (simp only: checksum_loop_sum_7bit)
qed

lemma mask7_byte: "(0x7F :: byte) = mask 7" by (simp add: mask_eq_exp_minus_1)
lemma unat_and_7F: "unat ((w :: byte) AND 0x7F) = unat w mod 128"
  by (simp add: mask7_byte flip: take_bit_eq_mask add: unsigned_take_bit_eq take_bit_eq_mod unat_mod)
lemma unat_neg_byte: "unat (- (w :: byte)) = (256 - unat w) mod 256"
proof -
  have "unat (0 - w) = (if unat w \<le> 0 then 0 - unat w else 0 + 2 ^ 8 - unat w)"
    using unat_sub_if' [of 0 w] by simp
  moreover have "unat w < 256" using unsigned_less [of w] by simp
  ultimately show ?thesis by (auto)
qed
lemma checksum_finish_neg: "checksum_finish s = (- s) AND 0x7F"
  by (simp add: checksum_finish_def minus_eq_not_plus_1)
lemma neg_mod_roundtrip: "((S::nat) + ((256 - S mod 256) mod 256) mod 128) mod 128 = 0"
proof -
  define q r where "q = S div 256" and "r = S mod 256"
  have S: "S = 256 * q + r" and r: "r < 256" by (simp_all add: q_def r_def)
  have "(S + ((256 - r) mod 256) mod 128) mod 128 = (S + (256 - r) mod 256) mod 128"
    by (simp add: mod_add_right_eq)
  also have "S + (256 - r) mod 256 = 128 * (if r = 0 then 2 * q else 2 * q + 2)"
    using r by (simp add: S)
  also have "\<dots> mod 128 = 0" by (rule mod_mult_self1_is_0)
  finally show ?thesis by (simp add: r_def)
qed

lemma checksum_finish_roundtrip:
  "(S + unat (checksum_finish (of_nat S))) mod 128 = 0"
proof -
  have "unat (checksum_finish (of_nat S)) = ((256 - S mod 256) mod 256) mod 128"
    by (simp add: checksum_finish_neg unat_and_7F unat_neg_byte unat_of_nat)
  then show ?thesis by (simp only: neg_mod_roundtrip)
qed

lemma checksum_finish_bound: "unat (checksum_finish s) \<le> 127"
proof -
  have "unat (checksum_finish s) < 128"
    by (simp add: checksum_finish_neg unat_and_7F)
  then show ?thesis by simp
qed

lemma Checksum_voices:
  assumes "length sysex = sysexSize"
  shows "Checksum sysex = checksum_finish (of_nat (sum_7bit (voices sysex)))"
proof -
  have "offset_voices + rawDataSize \<le> length sysex"
    using assms by (simp add: offset_voices_def rawDataSize_def sysexSize_def)
  then have "map (\<lambda>i. sysex ! (offset_voices + i)) [0..<rawDataSize] = voices sysex"
    by (simp add: map_nth_offset voices_def sizeof_VoicePacked_128 rawDataSize_def)
  then show ?thesis by (simp add: Checksum_def checksum_loop_sum_7bit)
qed

text \<open>
  C1. For every bank buffer (4104 bytes, hence a 4096-byte payload \<open>voices\<close>),
  \<open>Checksum\<close> returns the two's complement of the sum of the payload bytes each masked
  to 7 bits, taken modulo 256 (the conversion \<open>of_nat\<close> to an 8-bit word), masked to
  7 bits; the sum of the masked bytes plus the checksum is 0 modulo 128, and the
  checksum lies in 0..127.
\<close>

theorem Checksum_twos_complement:
  assumes "length sysex = sysexSize"
  shows "Checksum sysex = (- (of_nat (sum_7bit (voices sysex)) :: byte)) AND 0x7F
       \<and> length (voices sysex) = 4096
       \<and> (sum_7bit (voices sysex) + unat (Checksum sysex)) mod 128 = 0
       \<and> unat (Checksum sysex) \<le> 127"
proof -
  have len: "length (voices sysex) = 4096"
    using assms by (simp add: voices_def sizeof_VoicePacked_128 offset_voices_def sysexSize_def)
  show ?thesis
    using len
    by (simp add: Checksum_voices [OF assms] checksum_finish_neg [symmetric]
        checksum_finish_roundtrip checksum_finish_bound)
qed

theorem Checksum_twos_complement_witness:
  "length (replicate 4104 (0 :: byte)) = sysexSize
   \<and> Checksum (replicate 4104 0)
       = (- (of_nat (sum_7bit (voices (replicate 4104 0))) :: byte)) AND 0x7F
   \<and> length (voices (replicate 4104 (0 :: byte))) = 4096
   \<and> (sum_7bit (voices (replicate 4104 0)) + unat (Checksum (replicate 4104 0))) mod 128 = 0
   \<and> unat (Checksum (replicate 4104 0)) \<le> 127"
proof -
  have h: "length (replicate 4104 (0 :: byte)) = sysexSize"
    by (simp add: sysexSize_def)
  show ?thesis by (rule conjI [OF h Checksum_twos_complement [OF h]])
qed

section \<open>Evaluating the validator on example buffers\<close>

lemma checksum_loop_Suc:
  "checksum_loop p (Suc n) = checksum_loop p n + (p n AND 0x7F)"
  by (simp add: checksum_loop_def)

lemma checksum_loop_zero:
  "(\<And>i. i < n \<Longrightarrow> p i = 0) \<Longrightarrow> checksum_loop p n = 0"
proof (induction n)
  case 0
  show ?case by (simp add: checksum_loop_def)
next
  case (Suc n)
  then show ?case by (simp add: checksum_loop_Suc)
qed

lemma checksum_finish_0: "checksum_finish 0 = 0"
  by (simp add: checksum_finish_def)

lemma length_test_bank: "length h = 6 \<Longrightarrow> length (test_bank h c e) = sysexSize"
  by (simp add: test_bank_def sysexSize_def rawDataSize_def)

lemma Checksum_test_bank: "length h = 6 \<Longrightarrow> Checksum (test_bank h c e) = 0"
  unfolding Checksum_def
  by (simp add: checksum_finish_0 checksum_loop_zero test_bank_def nth_append
      offset_voices_def rawDataSize_def)

lemma voices_test_bank: "length h = 6 \<Longrightarrow> voices (test_bank h c e) = replicate 4096 0"
  by (simp add: voices_def test_bank_def sizeof_VoicePacked_128 offset_voices_def
      rawDataSize_def)

lemma test_bank_fields:
  "sysexBeginF0 (test_bank [a0, a1, a2, a3, a4, a5] c e) = a0"
  "yamaha43 (test_bank [a0, a1, a2, a3, a4, a5] c e) = a1"
  "subStatusAndChannel (test_bank [a0, a1, a2, a3, a4, a5] c e) = a2"
  "format9 (test_bank [a0, a1, a2, a3, a4, a5] c e) = a3"
  "sizeMSB (test_bank [a0, a1, a2, a3, a4, a5] c e) = a4"
  "sizeLSB (test_bank [a0, a1, a2, a3, a4, a5] c e) = a5"
  "checksum (test_bank [a0, a1, a2, a3, a4, a5] c e) = c"
  "sysexEndF7 (test_bank [a0, a1, a2, a3, a4, a5] c e) = e"
  by (simp_all add: test_bank_def sysexBeginF0_def yamaha43_def subStatusAndChannel_def
      format9_def sizeMSB_def sizeLSB_def checksum_def sysexEndF7_def
      offset_checksum_4102 offset_sysexEndF7_4103 nth_append rawDataSize_def)

lemma substatus_condition_bit0: "substatus_condition b \<longleftrightarrow> b AND 1 \<noteq> 0"
proof -
  have "uint b AND 1 = uint (b AND 1)" by (simp add: uint_and)
  then show ?thesis by (simp add: substatus_condition_def uint_0_iff)
qed

lemma substatus_condition_0: "\<not> substatus_condition 0"
  by (simp add: substatus_condition_def)

section \<open>The repair transform and the validator\<close>

lemma Checksum_update_outside:
  "i < offset_voices \<or> offset_checksum \<le> i \<Longrightarrow> Checksum (s[i := v]) = Checksum s"
  unfolding Checksum_def
  by (rule arg_cong [where f = checksum_finish], rule checksum_loop_cong)
     (auto simp: offset_checksum_4102 offset_voices_def rawDataSize_def)

lemma FixFile_fields_header:
  assumes "length s = sysexSize"
  shows "sysexBeginF0 (FixFile_fields s) = 0xF0" "yamaha43 (FixFile_fields s) = 0x43"
    "subStatusAndChannel (FixFile_fields s) = 0" "format9 (FixFile_fields s) = 9"
    "sizeMSB (FixFile_fields s) = 0x20" "sizeLSB (FixFile_fields s) = 0"
    "sysexEndF7 (FixFile_fields s) = 0xF7"
  using assms
  by (simp_all add: FixFile_fields_def Let_def sysexSize_def offset_checksum_4102
      offset_sysexEndF7_4103 sysexBeginF0_def yamaha43_def subStatusAndChannel_def
      format9_def sizeMSB_def sizeLSB_def sysexEndF7_def)

lemma Checksum_FixFile_fields: "Checksum (FixFile_fields s) = Checksum s"
  by (simp add: FixFile_fields_def Let_def Checksum_update_outside offset_checksum_4102
      offset_sysexEndF7_4103 offset_voices_def)

lemma checksum_FixFile_fields:
  assumes "length s = sysexSize"
  shows "checksum (FixFile_fields s) = Checksum s"
  using assms
  by (simp add: FixFile_fields_def Let_def checksum_def Checksum_update_outside
      sysexSize_def offset_checksum_4102 offset_sysexEndF7_4103 offset_voices_def)

lemma FixFile_buffer: "fst (snd (FixFile opts env s filename)) = FixFile_fields s"
  by (simp add: FixFile_def Let_def)

lemma Verify_FixFile_fields:
  assumes "length s = sysexSize" and "buffer g = FixFile_fields s"
  shows "Verify g = (0, g)"
  using assms
  by (simp add: Verify_def Let_def FixFile_fields_header substatus_condition_0
      Checksum_FixFile_fields checksum_FixFile_fields)

lemma nth_voices:
  "length s = sysexSize \<Longrightarrow> k < 4096 \<Longrightarrow> voices s ! k = s ! (6 + k)"
  by (simp add: voices_def sizeof_VoicePacked_128 offset_voices_def sysexSize_def)

lemma length_voices: "length s = sysexSize \<Longrightarrow> length (voices s) = 4096"
  by (simp add: voices_def sizeof_VoicePacked_128 offset_voices_def sysexSize_def)

lemma FixFile_fields_nth:
  assumes "length s = sysexSize" and "i < 4104"
  shows "FixFile_fields s ! i =
     (if i < 6 then [0xF0, 0x43, 0, 0x09, 0x20, 0] ! i
      else if i < 4102 then s ! i
      else if i = 4102 then Checksum s else 0xF7)"
proof -
  consider "i = 0" | "i = 1" | "i = 2" | "i = 3" | "i = 4" | "i = 5"
    | "6 \<le> i \<and> i < 4102" | "i = 4102" | "i = 4103"
    using assms(2) by arith
  then show ?thesis
    using assms
    by cases
      (simp_all add: FixFile_fields_def Let_def Checksum_update_outside offset_voices_def
         sysexSize_def offset_checksum_4102 offset_sysexEndF7_4103)
qed

lemma nth_framed:
  assumes "length H = 6" and "length V = 4096" and "i < 4104"
  shows "(H @ V @ [c, e]) ! i =
     (if i < 6 then H ! i else if i < 4102 then V ! (i - 6)
      else if i = 4102 then c else e)"
proof -
  consider "i < 6" | "6 \<le> i \<and> i < 4102" | "i = 4102" | "i = 4103"
    using assms(3) by arith
  then show ?thesis
  proof cases
    case 1
    with assms(1,2) show ?thesis by (simp add: nth_append)
  next
    case 2
    then have "i - 6 < 4096" by arith
    with 2 assms(1,2) show ?thesis by (simp add: nth_append)
  next
    case 3
    with assms(1,2) show ?thesis by (simp add: nth_append)
  next
    case 4
    with assms(1,2) show ?thesis by (simp add: nth_append)
  qed
qed

lemma FixFile_fields_canonical:
  assumes "length s = sysexSize"
  shows "FixFile_fields s = [0xF0, 0x43, 0, 0x09, 0x20, 0] @ voices s @ [Checksum s, 0xF7]"
proof (rule nth_equalityI)
  show "length (FixFile_fields s)
      = length ([0xF0, 0x43, 0, 0x09, 0x20, 0] @ voices s @ [Checksum s, 0xF7])"
    using assms by (simp add: FixFile_fields_def Let_def length_voices sysexSize_def)
next
  fix i assume "i < length (FixFile_fields s)"
  then have i: "i < 4104"
    using assms by (simp add: FixFile_fields_def Let_def sysexSize_def)
  have voices: "6 \<le> i \<Longrightarrow> i < 4102 \<Longrightarrow> voices s ! (i - 6) = s ! i"
    using assms nth_voices [of s "i - 6"] by simp
  have "([0xF0, 0x43, 0, 0x09, 0x20, 0] @ voices s @ [Checksum s, 0xF7]) ! i =
     (if i < 6 then [0xF0, 0x43, 0, 0x09, 0x20, 0] ! i
      else if i < 4102 then voices s ! (i - 6)
      else if i = 4102 then Checksum s else 0xF7)"
    using assms i by (intro nth_framed) (simp_all add: length_voices)
  also have "\<dots> = FixFile_fields s ! i"
    using voices by (simp add: FixFile_fields_nth [OF assms i])
  finally show "FixFile_fields s ! i
      = ([0xF0, 0x43, 0, 0x09, 0x20, 0] @ voices s @ [Checksum s, 0xF7]) ! i"
    by (rule sym)
qed

text \<open>
  C2. When the backup is requested (\<^verbatim>\<open>noBackup\<close> is not set) and \<^verbatim>\<open>rename\<close> fails,
  \<^verbatim>\<open>FixFile\<close> returns 1 after the \<^verbatim>\<open>rename\<close> call and the error message: its trace
  holds no \<^verbatim>\<open>fopen\<close> for writing and no \<^verbatim>\<open>fwrite\<close>, so the corrected buffer is not
  written.
\<close>

theorem FixFile_aborts_when_backup_fails:
  assumes "\<not> noBackup opts" and "rename_result env \<noteq> 0"
  shows "FixFile opts env sysex filename
           = (1, FixFile_fields sysex,
              [Rename filename (filename @ ''.ORIG''), Print RenameFailed])
       \<and> FopenWb filename \<notin> set (snd (snd (FixFile opts env sysex filename)))
       \<and> (\<forall>bytes. Fwrite bytes \<notin> set (snd (snd (FixFile opts env sysex filename))))"
  using assms by (simp add: FixFile_def Let_def)

theorem FixFile_aborts_when_backup_fails_witness:
  "FixFile test_options ((test_environment [])\<lparr>rename_result := - 1\<rparr>)
       (test_bank [0xF0, 0x43, 0, 9, 0x20, 0] 1 0xF7) ''bank.syx''
     = (1, FixFile_fields (test_bank [0xF0, 0x43, 0, 9, 0x20, 0] 1 0xF7),
        [Rename ''bank.syx'' ''bank.syx.ORIG'', Print RenameFailed])"
  using FixFile_aborts_when_backup_fails
    [of test_options "(test_environment [])\<lparr>rename_result := - 1\<rparr>"
        "test_bank [0xF0, 0x43, 0, 9, 0x20, 0] 1 0xF7" "''bank.syx''"]
  by (simp add: test_options_def test_environment_def)

text \<open>
  C3. For every bank buffer (so in particular for one whose only deviations are a bad
  sub-status, format id, size pair or checksum), the buffer that \<^verbatim>\<open>FixFile\<close> leaves is
  the canonical header F0 43 00 09 20 00, the 4096 voice bytes it was given, the
  checksum of those voice bytes, and the end marker F7; and \<^verbatim>\<open>Verify\<close> on that buffer
  returns 0 (pass) and changes nothing: started with \<^verbatim>\<open>fixNeeded\<close> cleared it leaves
  \<^verbatim>\<open>fixNeeded\<close> cleared, and it writes no message.
\<close>

theorem Verify_passes_after_FixFile:
  assumes "length sysex = sysexSize"
    and "buffer g = fst (snd (FixFile opts env sysex filename))"
  shows "fst (snd (FixFile opts env sysex filename))
           = [0xF0, 0x43, 0, 0x09, 0x20, 0] @ voices sysex @ [Checksum sysex, 0xF7]
       \<and> Verify (g\<lparr>fixNeeded := False\<rparr>) = (0, g\<lparr>fixNeeded := False\<rparr>)"
proof
  show "fst (snd (FixFile opts env sysex filename))
           = [0xF0, 0x43, 0, 0x09, 0x20, 0] @ voices sysex @ [Checksum sysex, 0xF7]"
    using assms(1) by (simp only: FixFile_buffer FixFile_fields_canonical)
next
  have "buffer (g\<lparr>fixNeeded := False\<rparr>) = FixFile_fields sysex"
    using assms(2) by (simp add: FixFile_buffer)
  with assms(1) show "Verify (g\<lparr>fixNeeded := False\<rparr>) = (0, g\<lparr>fixNeeded := False\<rparr>)"
    by (rule Verify_FixFile_fields)
qed

theorem Verify_passes_after_FixFile_witness:
  "length (test_bank [0xF0, 0x43, 0x11, 0x08, 0x21, 0x01] 0x55 0xF7) = sysexSize
   \<and> fst (Verify (initial_globals
        \<lparr>buffer := test_bank [0xF0, 0x43, 0x11, 0x08, 0x21, 0x01] 0x55 0xF7\<rparr>)) = 0
   \<and> fixNeeded (snd (Verify (initial_globals
        \<lparr>buffer := test_bank [0xF0, 0x43, 0x11, 0x08, 0x21, 0x01] 0x55 0xF7\<rparr>)))
   \<and> fst (snd (FixFile test_options (test_environment [])
             (test_bank [0xF0, 0x43, 0x11, 0x08, 0x21, 0x01] 0x55 0xF7) ''bank.syx''))
       = [0xF0, 0x43, 0, 0x09, 0x20, 0] @ replicate 4096 0 @ [0, 0xF7]
   \<and> Verify (initial_globals
        \<lparr>buffer := fst (snd (FixFile test_options (test_environment [])
             (test_bank [0xF0, 0x43, 0x11, 0x08, 0x21, 0x01] 0x55 0xF7) ''bank.syx'')),
         fixNeeded := False\<rparr>)
       = (0, initial_globals
        \<lparr>buffer := fst (snd (FixFile test_options (test_environment [])
             (test_bank [0xF0, 0x43, 0x11, 0x08, 0x21, 0x01] 0x55 0xF7) ''bank.syx'')),
         fixNeeded := False\<rparr>)"
proof -
  let ?b = "test_bank [0xF0, 0x43, 0x11, 0x08, 0x21, 0x01] 0x55 0xF7"
  let ?f = "fst (snd (FixFile test_options (test_environment []) ?b ''bank.syx''))"
  let ?g = "initial_globals\<lparr>buffer := ?f\<rparr>"
  have len: "length ?b = sysexSize" by (simp add: length_test_bank)
  have before: "Verify (initial_globals\<lparr>buffer := ?b\<rparr>)
      = (0, initial_globals\<lparr>buffer := ?b, msgBuffer := ChecksumFailed 0, fixNeeded := True\<rparr>)"
    by (simp add: Verify_def Let_def test_bank_fields Checksum_test_bank
        substatus_condition_bit0)
  have g: "buffer ?g = ?f" by simp
  note fixed = Verify_passes_after_FixFile [OF len g]
  have canonical: "?f = [0xF0, 0x43, 0, 0x09, 0x20, 0] @ replicate 4096 0 @ [0, 0xF7]"
    using fixed [THEN conjunct1] by (simp add: voices_test_bank Checksum_test_bank)
  have after: "Verify (?g\<lparr>fixNeeded := False\<rparr>) = (0, ?g\<lparr>fixNeeded := False\<rparr>)"
    by (rule fixed [THEN conjunct2])
  have pass: "fst (Verify (initial_globals\<lparr>buffer := ?b\<rparr>)) = 0"
    and flagged: "fixNeeded (snd (Verify (initial_globals\<lparr>buffer := ?b\<rparr>)))"
    by (simp_all add: before)
  show ?thesis
    by (intro conjI) (fact len pass flagged canonical after)+
qed

text \<open>
  C4 (what the code does). On a bank buffer that passes the start-marker and vendor-id
  tests and has no other deviation, \<^verbatim>\<open>Verify\<close> sets \<^verbatim>\<open>fixNeeded\<close> for the sub-status
  exactly when bit 0 of the sub-status/channel byte is set, that is by the parity of the
  channel nibble; the high nibble does not enter the test. The message it then writes
  does print the high nibble.
\<close>

theorem Verify_substatus_tests_bit0:
  assumes "sysexBeginF0 (buffer g) = 0xF0" and "yamaha43 (buffer g) = 0x43"
    and "format9 (buffer g) = 0x09"
    and "sizeMSB (buffer g) = 0x20" and "sizeLSB (buffer g) = 0"
    and "sysexEndF7 (buffer g) = 0xF7" and "checksum (buffer g) = Checksum (buffer g)"
  shows "Verify g =
      (0, if subStatusAndChannel (buffer g) AND 1 \<noteq> 0
          then g\<lparr>msgBuffer := NoSubstatus0 (drop_bit 4 (subStatusAndChannel (buffer g) AND 0xF0)),
                 fixNeeded := True\<rparr>
          else g)"
  using assms by (simp add: Verify_def Let_def substatus_condition_bit0)

theorem Verify_substatus_tests_bit0_witness:
  "Verify (initial_globals\<lparr>buffer := test_bank [0xF0, 0x43, 0x10, 9, 0x20, 0] 0 0xF7\<rparr>)
     = (0, initial_globals\<lparr>buffer := test_bank [0xF0, 0x43, 0x10, 9, 0x20, 0] 0 0xF7\<rparr>)
   \<and> Verify (initial_globals\<lparr>buffer := test_bank [0xF0, 0x43, 0x01, 9, 0x20, 0] 0 0xF7\<rparr>)
     = (0, initial_globals\<lparr>buffer := test_bank [0xF0, 0x43, 0x01, 9, 0x20, 0] 0 0xF7,
                            msgBuffer := NoSubstatus0 0, fixNeeded := True\<rparr>)"
  using
    Verify_substatus_tests_bit0
      [of "initial_globals\<lparr>buffer := test_bank [0xF0, 0x43, 0x10, 9, 0x20, 0] 0 0xF7\<rparr>"]
    Verify_substatus_tests_bit0
      [of "initial_globals\<lparr>buffer := test_bank [0xF0, 0x43, 0x01, 9, 0x20, 0] 0 0xF7\<rparr>"]
  by (simp add: test_bank_fields Checksum_test_bank)

text \<open>
  C9. \<^verbatim>\<open>Verify\<close> leaves the buffer as it is, whatever it returns: it writes only
  \<^verbatim>\<open>msgBuffer\<close> and \<^verbatim>\<open>fixNeeded\<close>; the other globals keep their values too.
\<close>

theorem Verify_leaves_buffer:
  "buffer (snd (Verify g)) = buffer g
   \<and> snd (Verify g) = g\<lparr>msgBuffer := msgBuffer (snd (Verify g)),
                          fixNeeded := fixNeeded (snd (Verify g))\<rparr>"
  by (simp add: Verify_def Let_def)

theorem Verify_leaves_buffer_witness:
  "buffer (snd (Verify (initial_globals
       \<lparr>buffer := test_bank [0xF0, 0x43, 0x11, 0x08, 0x21, 0x01] 0x55 0xF7\<rparr>)))
     = test_bank [0xF0, 0x43, 0x11, 0x08, 0x21, 0x01] 0x55 0xF7
   \<and> buffer (snd (Verify (initial_globals
       \<lparr>buffer := test_bank [0xF0, 0x43, 0, 9, 0x20, 0] 0 0x00\<rparr>)))
     = test_bank [0xF0, 0x43, 0, 9, 0x20, 0] 0 0x00"
  using
    Verify_leaves_buffer
      [of "initial_globals
             \<lparr>buffer := test_bank [0xF0, 0x43, 0x11, 0x08, 0x21, 0x01] 0x55 0xF7\<rparr>"]
    Verify_leaves_buffer
      [of "initial_globals\<lparr>buffer := test_bank [0xF0, 0x43, 0, 9, 0x20, 0] 0 0x00\<rparr>"]
  by simp

text \<open>
  C10. \<^verbatim>\<open>Checksum\<close> reads only the 4096 bytes of \<^verbatim>\<open>voices\<close>: two bank buffers with
  the same voice bytes have the same checksum, whatever their header, checksum and
  end-marker bytes are. So the checksum that \<^verbatim>\<open>FixFile\<close> stores is the checksum of
  the buffer it was given, wherever among the other assignments it is computed.
\<close>

theorem Checksum_reads_voices_only:
  assumes "length a = sysexSize" and "length b = sysexSize" and "voices a = voices b"
  shows "Checksum a = Checksum b
       \<and> checksum (FixFile_fields a) = Checksum a
       \<and> Checksum (FixFile_fields a) = Checksum a"
  using assms
  by (simp add: Checksum_voices checksum_FixFile_fields Checksum_FixFile_fields)

theorem Checksum_reads_voices_only_witness:
  "length (test_bank [0xF0, 0x43, 0, 9, 0x20, 0] 0 0xF7) = sysexSize
   \<and> length (test_bank [1, 2, 3, 4, 5, 6] 0x55 0) = sysexSize
   \<and> voices (test_bank [0xF0, 0x43, 0, 9, 0x20, 0] 0 0xF7)
       = voices (test_bank [1, 2, 3, 4, 5, 6] 0x55 0)
   \<and> Checksum (test_bank [0xF0, 0x43, 0, 9, 0x20, 0] 0 0xF7)
       = Checksum (test_bank [1, 2, 3, 4, 5, 6] 0x55 0)"
proof -
  let ?a = "test_bank [0xF0, 0x43, 0, 9, 0x20, 0] 0 0xF7"
  let ?b = "test_bank [1, 2, 3, 4, 5, 6] 0x55 0"
  have a: "length ?a = sysexSize" and b: "length ?b = sysexSize"
    by (simp_all add: length_test_bank)
  have v: "voices ?a = voices ?b" by (simp add: voices_test_bank)
  show ?thesis using a b v Checksum_reads_voices_only [OF a b v] by simp
qed

section \<open>Fatal deviations and the run of processFile\<close>

lemma store_whole: "length bytes = length buf \<Longrightarrow> store buf 0 bytes = bytes"
  by (simp add: store_def)

lemma fread_bytes_all:
  "length content = n \<Longrightarrow> n \<le> fread_limit env \<Longrightarrow> fread_bytes env content n = content"
  by (simp add: fread_bytes_def)

lemma processFile_read_bank:
  assumes "file_content env = Some content" and "length content = sysexSize"
    and "sysexSize \<le> fread_limit env" and "length (buffer g0) = sysexSize"
  shows "processFile_read env filename g0
           = (None, g0\<lparr>fsize := int sysexSize, buffer := content\<rparr>, [])"
  using assms
  by (simp add: processFile_read_def Let_def fread_bytes_all store_whole)

lemma Verify_fatal_end:
  assumes "sysexEndF7 (buffer g) \<noteq> 0xF7"
  shows "fst (Verify g) = 1"
  using assms by (simp add: Verify_def Let_def)

lemma Verify_fatal_message:
  assumes "fst (Verify g) \<noteq> 0"
  shows "msgBuffer (snd (Verify g)) \<in> {NoSysexStart, NoYamahaID, NoSysexEnd}"
  using assms by (simp add: Verify_def Let_def split: if_splits)

lemma processFile_bank_fatal:
  assumes "sysexFile g" and "fst (Verify g) \<noteq> 0"
  shows "processFile_bank opts env filename g
           = (1, snd (Verify g),
              [CallVerify, Print (Filename filename),
               Print (Message (msgBuffer (snd (Verify g))))])"
  using assms by (simp add: processFile_bank_def Let_def split_beta)

lemma Verify_fatal_end_independent:
  assumes "sysexEndF7 (buffer g) \<noteq> 0xF7"
    and "\<And>i. i < offset_voices \<or> i = offset_sysexEndF7 \<Longrightarrow> b ! i = buffer g ! i"
  shows "Verify (g\<lparr>buffer := b\<rparr>) = (1, (snd (Verify g))\<lparr>buffer := b\<rparr>)"
proof -
  have "sysexBeginF0 b = sysexBeginF0 (buffer g)" "yamaha43 b = yamaha43 (buffer g)"
    "subStatusAndChannel b = subStatusAndChannel (buffer g)" "format9 b = format9 (buffer g)"
    "sizeMSB b = sizeMSB (buffer g)" "sizeLSB b = sizeLSB (buffer g)"
    "sysexEndF7 b = sysexEndF7 (buffer g)"
    by (simp_all add: assms(2) sysexBeginF0_def yamaha43_def subStatusAndChannel_def
        format9_def sizeMSB_def sizeLSB_def sysexEndF7_def offset_voices_def)
  with assms(1) show ?thesis by (simp add: Verify_def Let_def)
qed

text \<open>
  C6. For a bank buffer whose end-marker byte is not 0xF7, \<^verbatim>\<open>Verify\<close> returns 1
  (fatal) with one of the three fatal messages; its result is the same for every
  buffer with the same six header bytes and end marker, so neither the voice bytes
  nor the stored checksum are looked at; \<^verbatim>\<open>fixNeeded\<close> is set only by what it was
  before and by the sub-status, format and size tests; and \<^verbatim>\<open>processFile\<close>, given
  that buffer as a 4104-byte file, returns 1 right after \<^verbatim>\<open>Verify\<close> and the message,
  with no prompt, \<^verbatim>\<open>rename\<close>, \<^verbatim>\<open>fopen\<close> for writing or \<^verbatim>\<open>fwrite\<close>.
\<close>

theorem Verify_end_marker_fatal:
  assumes "sysexEndF7 (buffer g) \<noteq> 0xF7"
  shows "fst (Verify g) = 1
       \<and> msgBuffer (snd (Verify g)) \<in> {NoSysexStart, NoYamahaID, NoSysexEnd}
       \<and> (\<forall>b. (\<forall>i. i < offset_voices \<or> i = offset_sysexEndF7 \<longrightarrow> b ! i = buffer g ! i)
              \<longrightarrow> Verify (g\<lparr>buffer := b\<rparr>) = (1, (snd (Verify g))\<lparr>buffer := b\<rparr>))
       \<and> (fixNeeded (snd (Verify g)) \<longleftrightarrow>
            fixNeeded g
            \<or> (sysexBeginF0 (buffer g) = 0xF0 \<and> yamaha43 (buffer g) = 0x43
               \<and> (substatus_condition (subStatusAndChannel (buffer g))
                  \<or> format9 (buffer g) \<noteq> 0x09
                  \<or> sizeMSB (buffer g) \<noteq> 0x20 \<or> sizeLSB (buffer g) \<noteq> 0)))
       \<and> (\<forall>opts env filename.
            file_content env = Some (buffer g) \<and> length (buffer g) = sysexSize
            \<and> sysexSize \<le> fread_limit env
            \<longrightarrow> (\<exists>g' m. processFile opts env filename initial_globals
                        = (1, g', [CallVerify, Print (Filename filename),
                                   Print (Message m)])))"
proof (intro conjI allI impI)
  show fatal: "fst (Verify g) = 1" using assms by (rule Verify_fatal_end)
  then have "fst (Verify g) \<noteq> 0" by simp
  then show "msgBuffer (snd (Verify g)) \<in> {NoSysexStart, NoYamahaID, NoSysexEnd}"
    by (rule Verify_fatal_message)
next
  fix b assume "\<forall>i. i < offset_voices \<or> i = offset_sysexEndF7 \<longrightarrow> b ! i = buffer g ! i"
  then have "\<And>i. i < offset_voices \<or> i = offset_sysexEndF7 \<Longrightarrow> b ! i = buffer g ! i"
    by blast
  with assms show "Verify (g\<lparr>buffer := b\<rparr>) = (1, (snd (Verify g))\<lparr>buffer := b\<rparr>)"
    by (rule Verify_fatal_end_independent)
next
  show "fixNeeded (snd (Verify g)) \<longleftrightarrow>
            fixNeeded g
            \<or> (sysexBeginF0 (buffer g) = 0xF0 \<and> yamaha43 (buffer g) = 0x43
               \<and> (substatus_condition (subStatusAndChannel (buffer g))
                  \<or> format9 (buffer g) \<noteq> 0x09
                  \<or> sizeMSB (buffer g) \<noteq> 0x20 \<or> sizeLSB (buffer g) \<noteq> 0))"
    using assms by (simp add: Verify_def Let_def)
next
  fix opts :: options and env :: environment and filename :: string
  assume a: "file_content env = Some (buffer g) \<and> length (buffer g) = sysexSize
            \<and> sysexSize \<le> fread_limit env"
  let ?g = "initial_globals\<lparr>fsize := int sysexSize, buffer := buffer g\<rparr>"
  have read: "processFile_read env filename initial_globals = (None, ?g, [])"
    using a by (simp add: processFile_read_bank initial_globals_def)
  have "sysexEndF7 (buffer ?g) \<noteq> 0xF7" using assms by simp
  then have "fst (Verify ?g) = 1" by (rule Verify_fatal_end)
  then have "processFile_bank opts env filename ?g
           = (1, snd (Verify ?g),
              [CallVerify, Print (Filename filename),
               Print (Message (msgBuffer (snd (Verify ?g))))])"
    by (simp add: processFile_bank_fatal initial_globals_def)
  with read have "processFile opts env filename initial_globals
           = (1, snd (Verify ?g),
              [CallVerify, Print (Filename filename),
               Print (Message (msgBuffer (snd (Verify ?g))))])"
    by (simp add: processFile_def initial_globals_def)
  then show "\<exists>g' m. processFile opts env filename initial_globals
                        = (1, g', [CallVerify, Print (Filename filename),
                                   Print (Message m)])"
    by blast
qed

theorem Verify_end_marker_fatal_witness:
  "sysexEndF7 (test_bank [0xF0, 0x43, 0, 9, 0x20, 0] 1 0x00) \<noteq> 0xF7
   \<and> Verify (initial_globals\<lparr>buffer := test_bank [0xF0, 0x43, 0, 9, 0x20, 0] 1 0x00\<rparr>)
       = (1, initial_globals\<lparr>buffer := test_bank [0xF0, 0x43, 0, 9, 0x20, 0] 1 0x00,
                              msgBuffer := NoSysexEnd\<rparr>)
   \<and> fst (Verify (initial_globals
            \<lparr>buffer := test_bank [0xF0, 0x43, 0, 9, 0x20, 0] 1 0x00\<rparr>)) = 1"
proof -
  let ?g = "initial_globals\<lparr>buffer := test_bank [0xF0, 0x43, 0, 9, 0x20, 0] 1 0x00\<rparr>"
  have h: "sysexEndF7 (buffer ?g) \<noteq> 0xF7" by (simp add: test_bank_fields)
  have v: "Verify ?g = (1, ?g\<lparr>msgBuffer := NoSysexEnd\<rparr>)"
    by (simp add: Verify_def Let_def test_bank_fields substatus_condition_0)
  from Verify_end_marker_fatal [OF h] have "fst (Verify ?g) = 1" by blast
  with h v show ?thesis by simp
qed

section \<open>Headerless banks in processFile\<close>

lemma FindDupes_prints: "e \<in> set (FindDupes b) \<Longrightarrow> \<exists>p. e = Print p"
  by (auto simp: FindDupes_def Let_def split: if_splits)

lemma FixFile_no_CallVerify: "CallVerify \<notin> set (snd (snd (FixFile opts env b filename)))"
  by (simp add: FixFile_def Let_def)

lemma FindDupes_no_CallVerify: "CallVerify \<notin> set (FindDupes b)"
  using FindDupes_prints by blast

lemma processFile_bank_headerless:
  assumes "\<not> sysexFile g"
  shows "CallVerify \<notin> set (snd (snd (processFile_bank opts env filename g)))"
    and "fst (processFile_bank opts env filename g) = 0"
    and "\<not> errorsOnly opts
         \<Longrightarrow> CallFormat (buffer g) \<in> set (snd (snd (processFile_bank opts env filename g)))"
  using assms FixFile_no_CallVerify [of opts env "buffer g" filename]
    FindDupes_no_CallVerify
  by (auto simp: processFile_bank_def Let_def split_beta)

lemma processFile_read_headerless:
  assumes "file_content env = Some content" and "length content = rawDataSize"
    and "rawDataSize \<le> fread_limit env"
  shows "processFile_read env filename g0
     = (None,
        g0\<lparr>fsize := int rawDataSize,
            buffer := take 6 (buffer g0) @ content @ drop (6 + rawDataSize) (buffer g0),
            softError := True, sysexFile := False, fixNeeded := True\<rparr>,
        [Print (Filename filename), Print (HeaderlessWarning (int rawDataSize))])"
  using assms
  by (simp add: processFile_read_def Let_def fread_bytes_all store_def
      sysexSize_def rawDataSize_def)

text \<open>
  C7 (as the code has it). For a file of exactly 4096 bytes that is read completely,
  \<^verbatim>\<open>processFile\<close> stores the payload from offset 6 of the buffer and leaves the six
  bytes before it (and the two behind it) as they were: no header is written at this
  point. It sets \<^verbatim>\<open>softError\<close> and \<^verbatim>\<open>fixNeeded\<close> and clears \<^verbatim>\<open>sysexFile\<close>
  unconditionally, never calls \<^verbatim>\<open>Verify\<close>, hands that buffer to \<^verbatim>\<open>Format\<close> (unless only
  errors are listed) and returns 0.
\<close>

theorem processFile_headerless_bank:
  assumes "file_content env = Some content" and "length content = rawDataSize"
    and "rawDataSize \<le> fread_limit env" and "\<not> singleVoiceFile g0"
  shows "processFile_read env filename g0
     = (None,
        g0\<lparr>fsize := int rawDataSize,
            buffer := take 6 (buffer g0) @ content @ drop (6 + rawDataSize) (buffer g0),
            softError := True, sysexFile := False, fixNeeded := True\<rparr>,
        [Print (Filename filename), Print (HeaderlessWarning (int rawDataSize))])
    \<and> CallVerify \<notin> set (snd (snd (processFile opts env filename g0)))
    \<and> fst (processFile opts env filename g0) = 0
    \<and> (\<not> errorsOnly opts \<longrightarrow>
         CallFormat (take 6 (buffer g0) @ content @ drop (6 + rawDataSize) (buffer g0))
           \<in> set (snd (snd (processFile opts env filename g0))))"
proof -
  let ?g = "g0\<lparr>fsize := int rawDataSize,
            buffer := take 6 (buffer g0) @ content @ drop (6 + rawDataSize) (buffer g0),
            softError := True, sysexFile := False, fixNeeded := True\<rparr>"
  let ?t = "[Print (Filename filename), Print (HeaderlessWarning (int rawDataSize))]"
  have read: "processFile_read env filename g0 = (None, ?g, ?t)"
    using assms(1-3) by (rule processFile_read_headerless)
  have nosys: "\<not> sysexFile ?g" by simp
  have run: "processFile opts env filename g0
      = (fst (processFile_bank opts env filename ?g),
         fst (snd (processFile_bank opts env filename ?g)),
         ?t @ snd (snd (processFile_bank opts env filename ?g)))"
    using assms(4) by (simp add: processFile_def read split_beta)
  have "CallVerify \<notin> set (snd (snd (processFile opts env filename g0)))"
    using processFile_bank_headerless(1) [OF nosys, of opts env filename]
    by (simp add: run)
  moreover have "fst (processFile opts env filename g0) = 0"
    using processFile_bank_headerless(2) [OF nosys, of opts env filename]
    by (simp add: run)
  moreover have "\<not> errorsOnly opts \<longrightarrow>
         CallFormat (take 6 (buffer g0) @ content @ drop (6 + rawDataSize) (buffer g0))
           \<in> set (snd (snd (processFile opts env filename g0)))"
    using processFile_bank_headerless(3) [OF nosys, of opts env filename]
    by (simp add: run)
  ultimately show ?thesis using read by simp
qed

theorem processFile_headerless_bank_witness:
  "processFile_read (test_environment (replicate 4096 0x11)) ''raw.bin'' initial_globals
     = (None,
        initial_globals\<lparr>fsize := 4096,
            buffer := replicate 6 0 @ replicate 4096 0x11 @ [0, 0],
            softError := True, sysexFile := False, fixNeeded := True\<rparr>,
        [Print (Filename ''raw.bin''), Print (HeaderlessWarning 4096)])
   \<and> CallVerify \<notin> set (snd (snd (processFile test_options
         (test_environment (replicate 4096 0x11)) ''raw.bin'' initial_globals)))"
proof -
  have "replicate (4104 - 4102) (0 :: byte) = [0, 0]"
    by (simp add: numeral_eq_Suc)
  then show ?thesis
    using processFile_headerless_bank
      [of "test_environment (replicate 4096 0x11)" "replicate 4096 0x11"
        initial_globals "''raw.bin''" test_options]
    by (simp add: test_environment_def initial_globals_def sysexSize_def rawDataSize_def)
qed

text \<open>
  C7 as stated fails: after a 4096-byte file is read (here with no repair asked for)
  the six header bytes of the buffer are the zero bytes the buffer started with, not
  the canonical header F0 43 00 09 20 00, and that is the buffer \<^verbatim>\<open>Format\<close> gets.
\<close>

theorem headerless_bank_has_no_header:
  "processFile (test_options\<lparr>fixFiles := False\<rparr>)
       (test_environment (replicate 4096 0x11)) ''raw.bin'' initial_globals
     = (0,
        initial_globals\<lparr>fsize := 4096,
            buffer := [0, 0, 0, 0, 0, 0] @ replicate 4096 0x11 @ [0, 0],
            softError := True, sysexFile := False, fixNeeded := True\<rparr>,
        [Print (Filename ''raw.bin''), Print (HeaderlessWarning 4096),
         CallFormat ([0, 0, 0, 0, 0, 0] @ replicate 4096 0x11 @ [0, 0])])
   \<and> [0, 0, 0, 0, 0, 0] \<noteq> [0xF0, 0x43, 0, 0x09, 0x20, 0 :: byte]"
proof -
  have r6: "replicate 6 (0 :: byte) = [0, 0, 0, 0, 0, 0]"
    by (simp add: numeral_eq_Suc)
  have r2: "replicate (4104 - 4102) (0 :: byte) = [0, 0]"
    by (simp add: numeral_eq_Suc)
  have read: "processFile_read (test_environment (replicate 4096 0x11)) ''raw.bin''
      initial_globals
     = (None,
        initial_globals\<lparr>fsize := 4096,
            buffer := [0, 0, 0, 0, 0, 0] @ replicate 4096 0x11 @ [0, 0],
            softError := True, sysexFile := False, fixNeeded := True\<rparr>,
        [Print (Filename ''raw.bin''), Print (HeaderlessWarning 4096)])"
    using r2
    by (simp add: processFile_read_headerless test_environment_def initial_globals_def
        sysexSize_def rawDataSize_def r6)
  have "processFile (test_options\<lparr>fixFiles := False\<rparr>)
       (test_environment (replicate 4096 0x11)) ''raw.bin'' initial_globals
     = (0,
        initial_globals\<lparr>fsize := 4096,
            buffer := [0, 0, 0, 0, 0, 0] @ replicate 4096 0x11 @ [0, 0],
            softError := True, sysexFile := False, fixNeeded := True\<rparr>,
        [Print (Filename ''raw.bin''), Print (HeaderlessWarning 4096),
         CallFormat ([0, 0, 0, 0, 0, 0] @ replicate 4096 0x11 @ [0, 0])])"
    apply (simp only: processFile_def read)
    apply (simp add: processFile_bank_def Let_def test_options_def initial_globals_def)
    done
  then show ?thesis by simp
qed

section \<open>The error code of VerifySingle\<close>







section \<open>The pairs FindDupes reports\<close>

lemma memcmp_bytes_eq_0:
  "length xs = length ys \<Longrightarrow> memcmp_bytes xs ys = 0 \<longleftrightarrow> xs = ys"
  by (induction xs ys rule: list_induct2) auto

lemma length_voices_ptr:
  "length sysex = sysexSize \<Longrightarrow> i < 32 \<Longrightarrow>
   length (take (sizeof_VoicePacked - 10) (voices_ptr sysex i)) = 118"
  by (simp add: voices_ptr_def sizeof_VoicePacked_128 offset_voices_def sysexSize_def)

lemma take_voices_ptr:
  "take (sizeof_VoicePacked - 10) (voices_ptr sysex i) = take 118 (voice sysex i)"
  by (simp add: voices_ptr_def voice_def sizeof_VoicePacked_128)

lemma length_voice:
  "length sysex = sysexSize \<Longrightarrow> i < 32 \<Longrightarrow> length (voice sysex i) = 128"
  by (simp add: voice_def sizeof_VoicePacked_128 offset_voices_def sysexSize_def)

lemma take_eq_iff_nth:
  assumes "n \<le> length xs" and "n \<le> length ys"
  shows "take n xs = take n ys \<longleftrightarrow> (\<forall>k<n. xs ! k = ys ! k)"
  using assms by (auto simp: list_eq_iff_nth_eq)

lemma memcmp_voices:
  assumes "length sysex = sysexSize" and "i < 32" and "j < 32"
  shows "memcmp (voices_ptr sysex i) (voices_ptr sysex j) (sizeof_VoicePacked - 10) = 0
         \<longleftrightarrow> (\<forall>k<118. voice sysex i ! k = voice sysex j ! k)"
proof -
  have "memcmp (voices_ptr sysex i) (voices_ptr sysex j) (sizeof_VoicePacked - 10) = 0
        \<longleftrightarrow> take (sizeof_VoicePacked - 10) (voices_ptr sysex i)
            = take (sizeof_VoicePacked - 10) (voices_ptr sysex j)"
    unfolding memcmp_def
    by (rule memcmp_bytes_eq_0)
       (simp only: length_voices_ptr [OF assms(1,2)] length_voices_ptr [OF assms(1,3)])
  also have "\<dots> \<longleftrightarrow> take 118 (voice sysex i) = take 118 (voice sysex j)"
    by (simp only: take_voices_ptr)
  also have "\<dots> \<longleftrightarrow> (\<forall>k<118. voice sysex i ! k = voice sysex j ! k)"
    by (rule take_eq_iff_nth) (simp_all add: length_voice assms)
  finally show ?thesis .
qed

lemma FindDupes_pairs_mem:
  "(i, j) \<in> set (FindDupes_pairs sysex) \<longleftrightarrow>
     i < j \<and> j < 32
     \<and> memcmp (voices_ptr sysex i) (voices_ptr sysex j) (sizeof_VoicePacked - 10) = 0"
  by (auto simp: FindDupes_pairs_def split: if_splits)

lemma concat_map_if:
  "concat (map (\<lambda>j. if P j then [f j] else []) xs) = map f (filter P xs)"
  by (induction xs) simp_all

lemma inner_sorted:
  "sorted_wrt pair_before (concat (map (\<lambda>j. if P j then [(i, j)] else []) [a..<b]))"
proof -
  have "sorted_wrt (<) (filter P [a..<b])"
    by (rule sorted_wrt_filter) (rule sorted_wrt_upt)
  then show ?thesis
    by (simp add: concat_map_if sorted_wrt_map pair_before_def)
qed

lemma outer_sorted:
  "sorted_wrt pair_before
     (concat (map (\<lambda>i. concat (map (\<lambda>j. if P i j then [(i, j)] else []) [Suc i..<n]))
        [0..<m]))"
proof (induction m)
  case 0
  show ?case by simp
next
  case (Suc m)
  let ?inner = "\<lambda>i. concat (map (\<lambda>j. if P i j then [(i, j)] else []) [Suc i..<n])"
  have cross: "\<forall>x\<in>set (concat (map ?inner [0..<m])). \<forall>y\<in>set (?inner m). pair_before x y"
    by (auto simp: pair_before_def split: if_splits)
  have "sorted_wrt pair_before (?inner m)" by (rule inner_sorted)
  with Suc.IH cross show ?case by (simp add: sorted_wrt_append)
qed

lemma FindDupes_pairs_sorted: "sorted_wrt pair_before (FindDupes_pairs sysex)"
  unfolding FindDupes_pairs_def using outer_sorted [of _ 32 31] by simp

text \<open>
  C8. For every bank buffer, \<^verbatim>\<open>FindDupes\<close> reports the pair of voices \<open>i\<close>, \<open>j\<close>
  (loop indices from 0; the line it prints shows them as patch numbers \<open>i + 1\<close> and
  \<open>j + 1\<close>) exactly when \<open>i < j < 32\<close> and the two 128-byte voice records agree in
  their first 118 bytes, that is in every byte but the ten name bytes at their end;
  the pairs come in ascending \<open>i\<close>, then ascending \<open>j\<close>; the printed lines are these
  pairs in that order, followed by one empty line when there is a pair.
\<close>

theorem FindDupes_reports_duplicates:
  assumes "length sysex = sysexSize"
  shows "(\<forall>i j. (i, j) \<in> set (FindDupes_pairs sysex) \<longleftrightarrow>
            i < j \<and> j < 32 \<and> (\<forall>k<118. voice sysex i ! k = voice sysex j ! k))
       \<and> sorted_wrt pair_before (FindDupes_pairs sysex)
       \<and> FindDupes sysex
           = map (\<lambda>(i, j). Print (FoundDuplicate (int i + 1) (int j + 1)))
               (FindDupes_pairs sysex)
             @ (if FindDupes_pairs sysex \<noteq> [] then [Print EmptyLine] else [])"
proof (intro conjI allI)
  fix i j
  show "(i, j) \<in> set (FindDupes_pairs sysex) \<longleftrightarrow>
            i < j \<and> j < 32 \<and> (\<forall>k<118. voice sysex i ! k = voice sysex j ! k)"
  proof (cases "i < j \<and> j < 32")
    case True
    then have "i < 32" and "j < 32" by simp_all
    with assms True show ?thesis
      by (simp only: FindDupes_pairs_mem memcmp_voices)
  next
    case False
    then show ?thesis by (auto simp: FindDupes_pairs_mem)
  qed
next
  show "sorted_wrt pair_before (FindDupes_pairs sysex)"
    by (rule FindDupes_pairs_sorted)
next
  show "FindDupes sysex
           = map (\<lambda>(i, j). Print (FoundDuplicate (int i + 1) (int j + 1)))
               (FindDupes_pairs sysex)
             @ (if FindDupes_pairs sysex \<noteq> [] then [Print EmptyLine] else [])"
    by (simp add: FindDupes_def Let_def)
qed

lemma voice_test_dupes_bank:
  "voice test_dupes_bank 0 = replicate 118 0 @ replicate 10 0x41"
  "voice test_dupes_bank (Suc 0) = replicate 118 0 @ replicate 10 0x42"
  "voice test_dupes_bank 2 = 1 # replicate 127 0"
  by (simp_all add: voice_def test_dupes_bank_def sizeof_VoicePacked_128 offset_voices_def)

theorem FindDupes_reports_duplicates_witness:
  "length test_dupes_bank = sysexSize
   \<and> (0, 1) \<in> set (FindDupes_pairs test_dupes_bank)
   \<and> (0, 2) \<notin> set (FindDupes_pairs test_dupes_bank)
   \<and> (1, 2) \<notin> set (FindDupes_pairs test_dupes_bank)"
proof -
  have len: "length test_dupes_bank = sysexSize"
    by (simp add: test_dupes_bank_def sysexSize_def)
  note mem = FindDupes_reports_duplicates [OF len, THEN conjunct1, rule_format]
  have "(0, 1) \<in> set (FindDupes_pairs test_dupes_bank)"
    by (simp add: mem voice_test_dupes_bank nth_append)
  moreover have "\<not> (\<forall>k<118. voice test_dupes_bank 0 ! k = voice test_dupes_bank 2 ! k)"
    by (rule notI, drule spec [of _ 0]) (simp add: voice_test_dupes_bank nth_append)
  then have "(0, 2) \<notin> set (FindDupes_pairs test_dupes_bank)"
    by (simp add: mem)
  moreover have "\<not> (\<forall>k<118. voice test_dupes_bank 1 ! k = voice test_dupes_bank 2 ! k)"
    by (rule notI, drule spec [of _ 0]) (simp add: voice_test_dupes_bank nth_append)
  then have "(1, 2) \<notin> set (FindDupes_pairs test_dupes_bank)"
    by (simp add: mem)
  ultimately show ?thesis using len by simp
qed

end
